theory Spec2Isabelle
  imports Complex_Main
begin

section \<open>Data model\<close>

text \<open>
  The analyzer reads a pandas DataFrame. The model keeps what the code reads of it: the
  row labels (\<open>df.index\<close>, whose length is \<open>len(df)\<close>) and the columns by label. A
  missing column makes \<open>df['High']\<close> raise KeyError; a positional read past the end of
  a column makes \<open>.iloc[j]\<close> raise IndexError. Positions are natural numbers,
  Python's \<open>range(a, b)\<close> being the list \<open>[a..<b]\<close>, empty when \<open>b \<le> a\<close>.
\<close>

datatype py_error = KeyError | IndexError | ZeroDivisionError

text \<open>
  A price is a floating-point number: a number of a linear order (the finite values and
  the two infinities), or NaN. Every comparison with NaN is false, as in Python; the
  four comparisons the code uses are written out.
\<close>

datatype 'a pyfloat = NaN | Num 'a

fun float_ge :: "'a::linorder pyfloat \<Rightarrow> 'a pyfloat \<Rightarrow> bool" where
  "float_ge (Num x) (Num y) = (x \<ge> y)"
| "float_ge _ _ = False"

fun float_le :: "'a::linorder pyfloat \<Rightarrow> 'a pyfloat \<Rightarrow> bool" where
  "float_le (Num x) (Num y) = (x \<le> y)"
| "float_le _ _ = False"

fun float_gt :: "'a::linorder pyfloat \<Rightarrow> 'a pyfloat \<Rightarrow> bool" where
  "float_gt (Num x) (Num y) = (x > y)"
| "float_gt _ _ = False"

fun float_lt :: "'a::linorder pyfloat \<Rightarrow> 'a pyfloat \<Rightarrow> bool" where
  "float_lt (Num x) (Num y) = (x < y)"
| "float_lt _ _ = False"

record ('t, 'a) dataframe =
  df_index :: "'t list"
  df_columns :: "string \<rightharpoonup> 'a list"

definition len_df :: "('t, 'a) dataframe \<Rightarrow> nat" where
  "len_df df = length (df_index df)"

definition getitem :: "('t, 'a) dataframe \<Rightarrow> string \<Rightarrow> py_error + 'a list" where
  "getitem df name = (case df_columns df name of None \<Rightarrow> Inl KeyError | Some col \<Rightarrow> Inr col)"

definition iloc :: "'b list \<Rightarrow> nat \<Rightarrow> py_error + 'b" where
  "iloc col j = (if j < length col then Inr (col ! j) else Inl IndexError)"

text \<open>The dictionary appended for each swing point: keys \<open>'index'\<close>, \<open>'price'\<close>, \<open>'time'\<close>.\<close>

record ('t, 'a) swing_point =
  index :: nat
  price :: 'a
  time :: 't

text \<open>
  The analyzer object: \<open>__init__\<close> sets its only attribute, \<open>swing_length\<close>, to 5.
  The loops below read it from the object, so every property is stated for any window
  length, 5 included.
\<close>

record analyzer =
  swing_length :: nat

definition SMCAnalyzer_init :: analyzer where
  "SMCAnalyzer_init = \<lparr>swing_length = 5\<rparr>"

record market_structure =
  trend :: string
  bos_detected :: bool
  choch_detected :: bool

record signal =
  signal_type :: string
  confidence :: real

section \<open>Swing points\<close>

text \<open>
  The inner loop of \<open>find_swing_highs\<close> over \<open>j\<close>: the result is the flag
  \<open>is_swing_high\<close> when the loop ends; \<open>break\<close> ends it with the flag False. The
  test \<open>j != i and ...\<close> does not read the column at \<open>j = i\<close>.
\<close>

fun high_window_scan ::
  "('t, 'a::linorder pyfloat) dataframe \<Rightarrow> 'a pyfloat \<Rightarrow> nat \<Rightarrow> nat list
     \<Rightarrow> py_error + bool" where
  "high_window_scan df current_high i [] = Inr True"
| "high_window_scan df current_high i (j # js) =
     (if j \<noteq> i then
        (case getitem df ''High'' of
           Inl e \<Rightarrow> Inl e
         | Inr col \<Rightarrow>
            (case iloc col j of
               Inl e \<Rightarrow> Inl e
             | Inr v \<Rightarrow>
                 if float_ge v current_high then Inr False
                 else high_window_scan df current_high i js))
      else high_window_scan df current_high i js)"

text \<open>The outer loop over the candidates \<open>i\<close>, with the list built so far.\<close>

fun swing_highs_loop ::
  "analyzer \<Rightarrow> ('t, 'a::linorder pyfloat) dataframe \<Rightarrow> nat list
     \<Rightarrow> ('t, 'a pyfloat) swing_point list \<Rightarrow> py_error + ('t, 'a pyfloat) swing_point list" where
  "swing_highs_loop a df [] swing_highs = Inr swing_highs"
| "swing_highs_loop a df (i # is) swing_highs =
     (case getitem df ''High'' of
        Inl e \<Rightarrow> Inl e
      | Inr col \<Rightarrow>
         (case iloc col i of
            Inl e \<Rightarrow> Inl e
          | Inr current_high \<Rightarrow>
             (case high_window_scan df current_high i
                     [i - swing_length a ..< i + swing_length a + 1] of
                Inl e \<Rightarrow> Inl e
              | Inr is_swing_high \<Rightarrow>
                  if is_swing_high then
                    (case iloc (df_index df) i of
                       Inl e \<Rightarrow> Inl e
                     | Inr t \<Rightarrow>
                         swing_highs_loop a df is
                           (swing_highs @ [\<lparr>index = i, price = current_high, time = t\<rparr>]))
                  else swing_highs_loop a df is swing_highs)))"

definition find_swing_highs ::
  "analyzer \<Rightarrow> ('t, 'a::linorder pyfloat) dataframe
     \<Rightarrow> py_error + ('t, 'a pyfloat) swing_point list" where
  "find_swing_highs a df =
     swing_highs_loop a df [swing_length a ..< len_df df - swing_length a] []"

fun low_window_scan ::
  "('t, 'a::linorder pyfloat) dataframe \<Rightarrow> 'a pyfloat \<Rightarrow> nat \<Rightarrow> nat list
     \<Rightarrow> py_error + bool" where
  "low_window_scan df current_low i [] = Inr True"
| "low_window_scan df current_low i (j # js) =
     (if j \<noteq> i then
        (case getitem df ''Low'' of
           Inl e \<Rightarrow> Inl e
         | Inr col \<Rightarrow>
            (case iloc col j of
               Inl e \<Rightarrow> Inl e
             | Inr v \<Rightarrow>
                 if float_le v current_low then Inr False
                 else low_window_scan df current_low i js))
      else low_window_scan df current_low i js)"

fun swing_lows_loop ::
  "analyzer \<Rightarrow> ('t, 'a::linorder pyfloat) dataframe \<Rightarrow> nat list
     \<Rightarrow> ('t, 'a pyfloat) swing_point list \<Rightarrow> py_error + ('t, 'a pyfloat) swing_point list" where
  "swing_lows_loop a df [] swing_lows = Inr swing_lows"
| "swing_lows_loop a df (i # is) swing_lows =
     (case getitem df ''Low'' of
        Inl e \<Rightarrow> Inl e
      | Inr col \<Rightarrow>
         (case iloc col i of
            Inl e \<Rightarrow> Inl e
          | Inr current_low \<Rightarrow>
             (case low_window_scan df current_low i
                     [i - swing_length a ..< i + swing_length a + 1] of
                Inl e \<Rightarrow> Inl e
              | Inr is_swing_low \<Rightarrow>
                  if is_swing_low then
                    (case iloc (df_index df) i of
                       Inl e \<Rightarrow> Inl e
                     | Inr t \<Rightarrow>
                         swing_lows_loop a df is
                           (swing_lows @ [\<lparr>index = i, price = current_low, time = t\<rparr>]))
                  else swing_lows_loop a df is swing_lows)))"

definition find_swing_lows ::
  "analyzer \<Rightarrow> ('t, 'a::linorder pyfloat) dataframe
     \<Rightarrow> py_error + ('t, 'a pyfloat) swing_point list" where
  "find_swing_lows a df =
     swing_lows_loop a df [swing_length a ..< len_df df - swing_length a] []"

section \<open>Market structure\<close>

text \<open>
  The body of the \<open>try\<close> block of \<open>identify_market_structure\<close>. The slice
  \<open>xs[-2:]\<close> is the last two elements of \<open>xs\<close> (all of \<open>xs\<close> when it has fewer);
  it is read at 0 and 1 only under the guard that both lists have two elements.
\<close>

definition identify_market_structure_try ::
  "analyzer \<Rightarrow> ('t, 'a::linorder pyfloat) dataframe \<Rightarrow> py_error + market_structure" where
  "identify_market_structure_try a df =
     (case find_swing_highs a df of
        Inl e \<Rightarrow> Inl e
      | Inr swing_highs \<Rightarrow>
         (case find_swing_lows a df of
            Inl e \<Rightarrow> Inl e
          | Inr swing_lows \<Rightarrow>
             (let structure =
                    \<lparr>trend = ''NEUTRAL'', bos_detected = False, choch_detected = False\<rparr>
              in
                if length swing_highs \<ge> 2 \<and> length swing_lows \<ge> 2 then
                  (let recent_highs = drop (length swing_highs - 2) swing_highs;
                       recent_lows = drop (length swing_lows - 2) swing_lows
                   in
                     if float_gt (price (recent_highs ! 1)) (price (recent_highs ! 0)) \<and>
                        float_gt (price (recent_lows ! 1)) (price (recent_lows ! 0))
                     then Inr (structure\<lparr>trend := ''BULLISH'', bos_detected := True\<rparr>)
                     else if float_lt (price (recent_highs ! 1)) (price (recent_highs ! 0)) \<and>
                             float_lt (price (recent_lows ! 1)) (price (recent_lows ! 0))
                     then Inr (structure\<lparr>trend := ''BEARISH'', bos_detected := True\<rparr>)
                     else Inr structure)
                else Inr structure)))"

text \<open>The \<open>except Exception\<close> handler: any error gives the neutral structure.\<close>

definition identify_market_structure ::
  "analyzer \<Rightarrow> ('t, 'a::linorder pyfloat) dataframe \<Rightarrow> market_structure" where
  "identify_market_structure a df =
     (case identify_market_structure_try a df of
        Inl e \<Rightarrow> \<lparr>trend = ''NEUTRAL'', bos_detected = False, choch_detected = False\<rparr>
      | Inr structure \<Rightarrow> structure)"

section \<open>Signal\<close>

text \<open>
  Python's \<open>x / y\<close> on integers (true division) and \<open>round(x, ndigits)\<close> (to the
  nearest multiple of \<open>10 ^ - ndigits\<close>, a tie going to the even one), over the reals.
  On every structure the quotient taken by the scorer is \<open>s / s\<close> for a score
  \<open>s \<in> {3, 4, 7}\<close>, which floating-point division computes exactly.
\<close>

definition py_truediv :: "int \<Rightarrow> int \<Rightarrow> py_error + real" where
  "py_truediv x y =
     (if y = 0 then Inl ZeroDivisionError else Inr (real_of_int x / real_of_int y))"

definition round_half_even :: "real \<Rightarrow> int" where
  "round_half_even x =
     (let f = \<lfloor>x\<rfloor>; d = x - real_of_int f
      in if d < 1 / 2 then f else if d > 1 / 2 then f + 1 else if even f then f else f + 1)"

definition py_round :: "real \<Rightarrow> nat \<Rightarrow> real" where
  "py_round x ndigits = real_of_int (round_half_even (x * 10 ^ ndigits)) / 10 ^ ndigits"

text \<open>Lines 98 to 105: both scores start at 0; the trend adds 3 to one of them.\<close>

definition market_structure_bias :: "market_structure \<Rightarrow> int \<times> int" where
  "market_structure_bias ms =
     (let buy_score = 0; sell_score = 0
      in if trend ms = ''BULLISH'' then (buy_score + 3, sell_score)
         else if trend ms = ''BEARISH'' then (buy_score, sell_score + 3)
         else (buy_score, sell_score))"

text \<open>Lines 107 to 112: the BOS bonus, an \<open>if\<close>/\<open>else\<close> on the trend being BULLISH.\<close>

definition bos_signals :: "market_structure \<Rightarrow> int \<times> int \<Rightarrow> int \<times> int" where
  "bos_signals ms scores =
     (case scores of (buy_score, sell_score) \<Rightarrow>
        if bos_detected ms then
          (if trend ms = ''BULLISH'' then (buy_score + 4, sell_score)
           else (buy_score, sell_score + 4))
        else (buy_score, sell_score))"

definition smc_scores :: "market_structure \<Rightarrow> int \<times> int" where
  "smc_scores ms = bos_signals ms (market_structure_bias ms)"

text \<open>Lines 114 to 132: the decision from the two scores.\<close>

definition determine_signal :: "int \<times> int \<Rightarrow> py_error + signal option" where
  "determine_signal scores =
     (case scores of (buy_score, sell_score) \<Rightarrow>
        (let total_score = buy_score + sell_score
         in if total_score = 0 then Inr None
            else if buy_score > sell_score \<and> buy_score \<ge> 3 then
              (case py_truediv buy_score total_score of
                 Inl e \<Rightarrow> Inl e
               | Inr q \<Rightarrow>
                   Inr (Some \<lparr>signal_type = ''BUY'',
                              confidence = py_round (min (q * 100) 95) 1\<rparr>))
            else if sell_score > buy_score \<and> sell_score \<ge> 3 then
              (case py_truediv sell_score total_score of
                 Inl e \<Rightarrow> Inl e
               | Inr q \<Rightarrow>
                   Inr (Some \<lparr>signal_type = ''SELL'',
                              confidence = py_round (min (q * 100) 95) 1\<rparr>))
            else Inr None))"

text \<open>
  The scorer on a market structure: the body of \<open>get_smc_signal\<close> after line 93. The
  structure is a dictionary of three keys, so \<open>not market_structure\<close> is never true.
\<close>

definition signal_of_structure :: "market_structure \<Rightarrow> py_error + signal option" where
  "signal_of_structure ms = determine_signal (smc_scores ms)"

definition get_smc_signal_try ::
  "analyzer \<Rightarrow> ('t, 'a::linorder pyfloat) dataframe \<Rightarrow> py_error + signal option" where
  "get_smc_signal_try a df =
     (let market_structure = identify_market_structure a df
      in signal_of_structure market_structure)"

text \<open>The \<open>except Exception\<close> handler: any error gives None.\<close>

definition get_smc_signal ::
  "analyzer \<Rightarrow> ('t, 'a::linorder pyfloat) dataframe \<Rightarrow> signal option" where
  "get_smc_signal a df =
     (case get_smc_signal_try a df of Inl e \<Rightarrow> None | Inr r \<Rightarrow> r)"

section \<open>The two scans as one\<close>

text \<open>
  \<open>find_swing_highs\<close> and \<open>find_swing_lows\<close> are the same two loops, on the column
  \<open>'High'\<close> with the test \<open>>=\<close> and on the column \<open>'Low'\<close> with the test \<open><=\<close>.
  The loops below take the column's label and the disqualifying test as parameters;
  the loops of the code are proved to be their two instances.
\<close>

fun window_scan ::
  "string \<Rightarrow> ('a \<Rightarrow> 'a \<Rightarrow> bool) \<Rightarrow> ('t, 'a) dataframe \<Rightarrow> 'a \<Rightarrow> nat \<Rightarrow> nat list
     \<Rightarrow> py_error + bool" where
  "window_scan name disq df current i [] = Inr True"
| "window_scan name disq df current i (j # js) =
     (if j \<noteq> i then
        (case getitem df name of
           Inl e \<Rightarrow> Inl e
         | Inr col \<Rightarrow>
            (case iloc col j of
               Inl e \<Rightarrow> Inl e
             | Inr v \<Rightarrow>
                 if disq v current then Inr False
                 else window_scan name disq df current i js))
      else window_scan name disq df current i js)"

fun swings_loop ::
  "string \<Rightarrow> ('a \<Rightarrow> 'a \<Rightarrow> bool) \<Rightarrow> analyzer \<Rightarrow> ('t, 'a) dataframe \<Rightarrow> nat list
     \<Rightarrow> ('t, 'a) swing_point list \<Rightarrow> py_error + ('t, 'a) swing_point list" where
  "swings_loop name disq a df [] swings = Inr swings"
| "swings_loop name disq a df (i # is) swings =
     (case getitem df name of
        Inl e \<Rightarrow> Inl e
      | Inr col \<Rightarrow>
         (case iloc col i of
            Inl e \<Rightarrow> Inl e
          | Inr current \<Rightarrow>
             (case window_scan name disq df current i
                     [i - swing_length a ..< i + swing_length a + 1] of
                Inl e \<Rightarrow> Inl e
              | Inr is_swing \<Rightarrow>
                  if is_swing then
                    (case iloc (df_index df) i of
                       Inl e \<Rightarrow> Inl e
                     | Inr t \<Rightarrow>
                         swings_loop name disq a df is
                           (swings @ [\<lparr>index = i, price = current, time = t\<rparr>]))
                  else swings_loop name disq a df is swings)))"

text \<open>
  What the window scan decides at position \<open>i\<close> of a column, and the swing point
  appended there.
\<close>

definition window_clear :: "('a \<Rightarrow> 'a \<Rightarrow> bool) \<Rightarrow> nat \<Rightarrow> 'a list \<Rightarrow> nat \<Rightarrow> bool" where
  "window_clear disq w col i =
     (\<forall>j \<in> set [i - w ..< i + w + 1]. j \<noteq> i \<longrightarrow> \<not> disq (col ! j) (col ! i))"

definition swing_at :: "('t, 'a) dataframe \<Rightarrow> 'a list \<Rightarrow> nat \<Rightarrow> ('t, 'a) swing_point" where
  "swing_at df col i = \<lparr>index = i, price = col ! i, time = df_index df ! i\<rparr>"

section \<open>Sample frames\<close>

text \<open>
  Thirty bars that fall, rise, fall, rise and fall, with higher highs and higher lows
  (highs at 12 and 24, lows at 6 and 18), and their mirror image with lower highs and
  lower lows (highs at 6 and 18, lows at 12 and 24).
\<close>

definition sample_index :: "nat list" where
  "sample_index =
     [0, 1, 2, 3, 4, 5, 6, 7, 8, 9, 10, 11, 12, 13, 14, 15, 16, 17, 18,
      19, 20, 21, 22, 23, 24, 25, 26, 27, 28, 29]"

definition rising_high :: "int pyfloat list" where
  "rising_high =
     map Num
     [11, 10, 9, 8, 7, 6, 5, 7, 9, 11, 13, 15, 17, 16, 15, 14, 13, 12, 11,
      13, 15, 17, 19, 21, 23, 22, 21, 20, 19, 18]"

definition rising_low :: "int pyfloat list" where
  "rising_low =
     map Num
     [9, 8, 7, 6, 5, 4, 3, 5, 7, 9, 11, 13, 15, 14, 13, 12, 11, 10, 9, 11,
      13, 15, 17, 19, 21, 20, 19, 18, 17, 16]"

definition falling_high :: "int pyfloat list" where
  "falling_high =
     map Num
     [21, 22, 23, 24, 25, 26, 27, 25, 23, 21, 19, 17, 15, 16, 17, 18, 19,
      20, 21, 19, 17, 15, 13, 11, 9, 10, 11, 12, 13, 14]"

definition falling_low :: "int pyfloat list" where
  "falling_low =
     map Num
     [19, 20, 21, 22, 23, 24, 25, 23, 21, 19, 17, 15, 13, 14, 15, 16, 17,
      18, 19, 17, 15, 13, 11, 9, 7, 8, 9, 10, 11, 12]"

definition rising_frame :: "(nat, int pyfloat) dataframe" where
  "rising_frame =
     \<lparr>df_index = sample_index,
      df_columns = [''High'' \<mapsto> rising_high, ''Low'' \<mapsto> rising_low]\<rparr>"

definition falling_frame :: "(nat, int pyfloat) dataframe" where
  "falling_frame =
     \<lparr>df_index = sample_index,
      df_columns = [''High'' \<mapsto> falling_high, ''Low'' \<mapsto> falling_low]\<rparr>"

text \<open>
  Ten bars (fewer than 11), a frame with no column \<open>'High'\<close>, and a frame whose column
  \<open>'High'\<close> is shorter than its index.
\<close>

definition short_frame :: "(nat, int pyfloat) dataframe" where
  "short_frame =
     \<lparr>df_index = [0, 1, 2, 3, 4, 5, 6, 7, 8, 9],
      df_columns = [''High'' \<mapsto> map Num [3, 4, 5, 6, 7, 9, 7, 6, 5, 4],
                    ''Low'' \<mapsto> map Num [1, 2, 3, 4, 5, 6, 5, 4, 3, 2]]\<rparr>"

definition no_high_frame :: "(nat, int pyfloat) dataframe" where
  "no_high_frame =
     \<lparr>df_index = sample_index, df_columns = [''Low'' \<mapsto> rising_low]\<rparr>"

definition ragged_frame :: "(nat, int pyfloat) dataframe" where
  "ragged_frame =
     \<lparr>df_index = sample_index,
      df_columns = [''High'' \<mapsto> map Num [3, 4, 5, 6, 7, 9, 7, 6, 5, 4],
                    ''Low'' \<mapsto> rising_low]\<rparr>"

text \<open>
  Twelve bars with two missing prices: the high is NaN at positions 5 and 6, and the low
  is NaN at the same positions.
\<close>

definition nan_high :: "int pyfloat list" where
  "nan_high =
     [Num 1, Num 2, Num 3, Num 4, Num 5, NaN, NaN, Num 5, Num 4, Num 3, Num 2, Num 1]"

definition nan_low :: "int pyfloat list" where
  "nan_low =
     [Num 0, Num 1, Num 2, Num 3, Num 4, NaN, NaN, Num 4, Num 3, Num 2, Num 1, Num 0]"

definition nan_frame :: "(nat, int pyfloat) dataframe" where
  "nan_frame =
     \<lparr>df_index = [0, 1, 2, 3, 4, 5, 6, 7, 8, 9, 10, 11],
      df_columns = [''High'' \<mapsto> nan_high, ''Low'' \<mapsto> nan_low]\<rparr>"

section \<open>The loops of the code are the two instances\<close>

lemma high_window_scan_eq:
  "high_window_scan df c i js = window_scan ''High'' float_ge df c i js"
  by (induction js) (simp_all split: sum.splits)

lemma low_window_scan_eq:
  "low_window_scan df c i js = window_scan ''Low'' float_le df c i js"
  by (induction js) (simp_all split: sum.splits)

lemma swing_highs_loop_eq:
  "swing_highs_loop a df is acc = swings_loop ''High'' float_ge a df is acc"
  by (induction "is" arbitrary: acc) (simp_all add: high_window_scan_eq split: sum.splits)

lemma swing_lows_loop_eq:
  "swing_lows_loop a df is acc = swings_loop ''Low'' float_le a df is acc"
  by (induction "is" arbitrary: acc) (simp_all add: low_window_scan_eq split: sum.splits)

lemma window_scan_total:
  assumes "df_columns df name = Some col" and "\<forall>j \<in> set js. j < length col"
  shows "window_scan name disq df c i js = Inr (\<forall>j \<in> set js. j \<noteq> i \<longrightarrow> \<not> disq (col ! j) c)"
  using assms by (induction js) (auto simp: getitem_def iloc_def)

lemma swings_loop_total:
  assumes "df_columns df name = Some col" and "length col = len_df df"
    and "\<forall>i \<in> set is. i + swing_length a < length col"
  shows "swings_loop name disq a df is acc =
           Inr (acc @ map (swing_at df col) (filter (window_clear disq (swing_length a) col) is))"
  using assms(3)
proof (induction "is" arbitrary: acc)
  case Nil
  then show ?case by simp
next
  case (Cons i "is")
  have i: "i + swing_length a < length col" and rest: "\<forall>k \<in> set is. k + swing_length a < length col"
    using Cons.prems by simp_all
  have scan: "window_scan name disq df (col ! i) i [i - swing_length a ..< i + swing_length a + 1]
      = Inr (window_clear disq (swing_length a) col i)"
    unfolding window_clear_def using i by (intro window_scan_total[OF assms(1)]) auto
  show ?case
    using i assms(1,2) scan Cons.IH[OF rest]
    by (simp add: getitem_def iloc_def len_df_def swing_at_def)
qed

section \<open>The swing points of a well-formed frame\<close>

lemma find_swing_highs_filter:
  assumes "df_columns df ''High'' = Some high" and "length high = len_df df"
  shows "find_swing_highs a df =
     Inr (map (swing_at df high)
           (filter (window_clear float_ge (swing_length a) high)
              [swing_length a ..< len_df df - swing_length a]))"
proof -
  have "\<forall>i \<in> set [swing_length a ..< len_df df - swing_length a]. i + swing_length a < length high"
    using assms(2) by auto
  from swings_loop_total[OF assms this] show ?thesis
    by (simp add: find_swing_highs_def swing_highs_loop_eq)
qed

lemma find_swing_lows_filter:
  assumes "df_columns df ''Low'' = Some low" and "length low = len_df df"
  shows "find_swing_lows a df =
     Inr (map (swing_at df low)
           (filter (window_clear float_le (swing_length a) low)
              [swing_length a ..< len_df df - swing_length a]))"
proof -
  have "\<forall>i \<in> set [swing_length a ..< len_df df - swing_length a]. i + swing_length a < length low"
    using assms(2) by auto
  from swings_loop_total[OF assms this] show ?thesis
    by (simp add: find_swing_lows_def swing_lows_loop_eq)
qed

lemma index_swing_at: "map index (map (swing_at df col) xs) = xs"
  by (induction xs) (simp_all add: swing_at_def)

lemma window_clear_iff:
  "window_clear disq w col i \<longleftrightarrow>
     (\<forall>j. i - w \<le> j \<and> j \<le> i + w \<and> j \<noteq> i \<longrightarrow> \<not> disq (col ! j) (col ! i))"
proof -
  have "set [i - w ..< i + w + 1] = {j. i - w \<le> j \<and> j \<le> i + w}"
    by auto
  then show ?thesis
    unfolding window_clear_def by blast
qed

lemma window_clearD:
  "window_clear disq w col i \<Longrightarrow> i - w \<le> j \<Longrightarrow> j \<le> i + w \<Longrightarrow> j \<noteq> i
     \<Longrightarrow> \<not> disq (col ! j) (col ! i)"
  by (simp add: window_clear_iff)

lemma swing_positions_iff:
  "(\<exists>s \<in> set (map (swing_at df col) (filter (window_clear disq w col) [w ..< n - w])). index s = i)
    \<longleftrightarrow> (w \<le> i \<and> i + w + 1 \<le> n \<and> (\<forall>j. i - w \<le> j \<and> j \<le> i + w \<and> j \<noteq> i \<longrightarrow> \<not> disq (col ! j) (col ! i)))"
  by (auto simp: swing_at_def window_clear_iff)

lemma sorted_swing_positions:
  "sorted_wrt (<) (map index (map (swing_at df col) (filter P [w ..< m])))"
  unfolding index_swing_at by (rule sorted_wrt_filter) simp

lemma swing_fields:
  "s \<in> set (map (swing_at df col) xs) \<Longrightarrow> price s = col ! index s \<and> time s = df_index df ! index s"
  by (auto simp: swing_at_def)

lemma float_ge_total: "x \<noteq> NaN \<Longrightarrow> y \<noteq> NaN \<Longrightarrow> float_ge x y \<or> float_ge y x"
  by (cases x; cases y) auto

lemma float_le_total: "x \<noteq> NaN \<Longrightarrow> y \<noteq> NaN \<Longrightarrow> float_le x y \<or> float_le y x"
  by (cases x; cases y) auto

lemma not_float_ge: "x \<noteq> NaN \<Longrightarrow> y \<noteq> NaN \<Longrightarrow> (\<not> float_ge x y) = float_gt y x"
  by (cases x; cases y) auto

lemma not_float_le: "x \<noteq> NaN \<Longrightarrow> y \<noteq> NaN \<Longrightarrow> (\<not> float_le x y) = float_lt y x"
  by (cases x; cases y) auto

lemma window_clear_apart:
  assumes tot: "disq (col ! i) (col ! k) \<or> disq (col ! k) (col ! i)"
    and "window_clear disq w col i" and "window_clear disq w col k" and "i < k"
  shows "i + w + 1 \<le> k"
proof (rule ccontr)
  assume "\<not> i + w + 1 \<le> k"
  then have near: "k \<le> i + w" by simp
  from near \<open>i < k\<close> have "\<not> disq (col ! k) (col ! i)"
    by (intro window_clearD[OF assms(2)]) simp_all
  moreover from near \<open>i < k\<close> have "\<not> disq (col ! i) (col ! k)"
    by (intro window_clearD[OF assms(3)]) simp_all
  ultimately show False using tot by blast
qed

lemma swings_apart:
  assumes tot: "\<And>x y. x \<in> set col \<Longrightarrow> y \<in> set col \<Longrightarrow> disq x y \<or> disq y x"
    and m: "m \<le> length col"
    and sw: "sw = map (swing_at df col) (filter (window_clear disq w col) [w ..< m])"
    and "p < q" and "q < length sw"
  shows "index (sw ! p) + w + 1 \<le> index (sw ! q)"
proof -
  let ?xs = "filter (window_clear disq w col) [w ..< m]"
  have len: "length ?xs = length sw" using sw by simp
  have ip: "index (sw ! p) = ?xs ! p" and iq: "index (sw ! q) = ?xs ! q"
    using assms(4,5) sw by (simp_all add: swing_at_def)
  have "sorted_wrt (<) ?xs" by (rule sorted_wrt_filter) simp
  then have lt: "?xs ! p < ?xs ! q"
    using assms(4,5) len by (simp add: sorted_wrt_iff_nth_less)
  have mem: "?xs ! p \<in> set ?xs" "?xs ! q \<in> set ?xs"
    using assms(4,5) len by (simp_all del: set_filter)
  then have clear: "window_clear disq w col (?xs ! p)" "window_clear disq w col (?xs ! q)"
    by simp_all
  from mem m have "?xs ! p < length col" "?xs ! q < length col"
    by auto
  then have "col ! (?xs ! p) \<in> set col" "col ! (?xs ! q) \<in> set col"
    by simp_all
  then have "disq (col ! (?xs ! p)) (col ! (?xs ! q)) \<or> disq (col ! (?xs ! q)) (col ! (?xs ! p))"
    by (rule tot)
  from window_clear_apart[OF this clear lt] show ?thesis
    using ip iq by simp
qed

lemma strict_maximum_form:
  assumes "NaN \<notin> set col" and "length col = n"
  shows "(w \<le> i \<and> i + w + 1 \<le> n
           \<and> (\<forall>j. i - w \<le> j \<and> j \<le> i + w \<and> j \<noteq> i \<longrightarrow> \<not> float_ge (col ! j) (col ! i)))
       = (w \<le> i \<and> i + w + 1 \<le> n
           \<and> (\<forall>j. i - w \<le> j \<and> j \<le> i + w \<and> j \<noteq> i \<longrightarrow> float_gt (col ! i) (col ! j)))"
proof (cases "w \<le> i \<and> i + w + 1 \<le> n")
  case True
  have "(\<not> float_ge (col ! j) (col ! i)) = float_gt (col ! i) (col ! j)" if "j \<le> i + w" for j
  proof -
    from that True assms(2) have "j < length col" "i < length col" by simp_all
    then have "col ! j \<in> set col" "col ! i \<in> set col" by simp_all
    with assms(1) have "col ! j \<noteq> NaN" "col ! i \<noteq> NaN" by metis+
    then show ?thesis by (rule not_float_ge)
  qed
  then show ?thesis by auto
next
  case False
  then show ?thesis by auto
qed

lemma strict_minimum_form:
  assumes "NaN \<notin> set col" and "length col = n"
  shows "(w \<le> i \<and> i + w + 1 \<le> n
           \<and> (\<forall>j. i - w \<le> j \<and> j \<le> i + w \<and> j \<noteq> i \<longrightarrow> \<not> float_le (col ! j) (col ! i)))
       = (w \<le> i \<and> i + w + 1 \<le> n
           \<and> (\<forall>j. i - w \<le> j \<and> j \<le> i + w \<and> j \<noteq> i \<longrightarrow> float_lt (col ! i) (col ! j)))"
proof (cases "w \<le> i \<and> i + w + 1 \<le> n")
  case True
  have "(\<not> float_le (col ! j) (col ! i)) = float_lt (col ! i) (col ! j)" if "j \<le> i + w" for j
  proof -
    from that True assms(2) have "j < length col" "i < length col" by simp_all
    then have "col ! j \<in> set col" "col ! i \<in> set col" by simp_all
    with assms(1) have "col ! j \<noteq> NaN" "col ! i \<noteq> NaN" by metis+
    then show ?thesis by (rule not_float_le)
  qed
  then show ?thesis by auto
next
  case False
  then show ?thesis by auto
qed

section \<open>Scores and signals by cases\<close>

lemma smc_scores_cases:
  "smc_scores ms =
     (if trend ms = ''BULLISH'' then (if bos_detected ms then (7, 0) else (3, 0))
      else if trend ms = ''BEARISH'' then (if bos_detected ms then (0, 7) else (0, 3))
      else (if bos_detected ms then (0, 4) else (0, 0)))"
  by (simp add: smc_scores_def bos_signals_def market_structure_bias_def)

lemma signal_of_structure_cases:
  "signal_of_structure ms =
     (if trend ms = ''BULLISH'' then Inr (Some \<lparr>signal_type = ''BUY'', confidence = 95\<rparr>)
      else if trend ms = ''BEARISH'' \<or> bos_detected ms
        then Inr (Some \<lparr>signal_type = ''SELL'', confidence = 95\<rparr>)
      else Inr None)"
  by (simp add: signal_of_structure_def smc_scores_cases determine_signal_def py_truediv_def
      py_round_def round_half_even_def)

lemma identify_market_structure_cases:
  "identify_market_structure a df = \<lparr>trend = ''NEUTRAL'', bos_detected = False, choch_detected = False\<rparr>
 \<or> identify_market_structure a df = \<lparr>trend = ''BULLISH'', bos_detected = True, choch_detected = False\<rparr>
 \<or> identify_market_structure a df = \<lparr>trend = ''BEARISH'', bos_detected = True, choch_detected = False\<rparr>"
  by (simp add: identify_market_structure_def identify_market_structure_try_def Let_def split: sum.splits)

section \<open>Missing columns, and the classifier on the swings found\<close>

lemma get_smc_signal_cases:
  "get_smc_signal a df =
     (if trend (identify_market_structure a df) = ''BULLISH''
        then Some \<lparr>signal_type = ''BUY'', confidence = 95\<rparr>
      else if trend (identify_market_structure a df) = ''BEARISH''
              \<or> bos_detected (identify_market_structure a df)
        then Some \<lparr>signal_type = ''SELL'', confidence = 95\<rparr>
      else None)"
  by (simp add: get_smc_signal_def get_smc_signal_try_def signal_of_structure_cases)

lemma neutral_structure_no_signal:
  assumes "identify_market_structure a df =
      \<lparr>trend = ''NEUTRAL'', bos_detected = False, choch_detected = False\<rparr>"
  shows "get_smc_signal a df = None"
  by (simp add: get_smc_signal_cases assms)

lemma swings_loop_missing:
  assumes "df_columns df name = None"
  shows "swings_loop name disq a df is acc = (if is = [] then Inr acc else Inl KeyError)"
  using assms by (cases "is") (simp_all add: getitem_def)

lemma find_swing_highs_missing:
  assumes "df_columns df ''High'' = None"
  shows "find_swing_highs a df = Inr [] \<or> find_swing_highs a df = Inl KeyError"
  by (simp add: find_swing_highs_def swing_highs_loop_eq swings_loop_missing[OF assms])

lemma find_swing_lows_missing:
  assumes "df_columns df ''Low'' = None"
  shows "find_swing_lows a df = Inr [] \<or> find_swing_lows a df = Inl KeyError"
  by (simp add: find_swing_lows_def swing_lows_loop_eq swings_loop_missing[OF assms])

lemma last_two_of_slice:
  assumes "2 \<le> length xs"
  shows "drop (length xs - 2) xs ! 1 = xs ! (length xs - 1)
      \<and> drop (length xs - 2) xs ! 0 = xs ! (length xs - 2)"
proof -
  from assms have "length xs - 2 + 1 = length xs - 1" by simp
  moreover have "drop (length xs - 2) xs ! 1 = xs ! (length xs - 2 + 1)"
    using assms by (intro nth_drop) simp
  moreover have "drop (length xs - 2) xs ! 0 = xs ! (length xs - 2 + 0)"
    using assms by (intro nth_drop) simp
  ultimately show ?thesis by simp
qed

lemma structure_of_swings:
  assumes "find_swing_highs a df = Inr hs" and "find_swing_lows a df = Inr ls"
  shows "identify_market_structure a df =
     (if length hs < 2 \<or> length ls < 2
        then \<lparr>trend = ''NEUTRAL'', bos_detected = False, choch_detected = False\<rparr>
      else if float_gt (price (hs ! (length hs - 1))) (price (hs ! (length hs - 2)))
            \<and> float_gt (price (ls ! (length ls - 1))) (price (ls ! (length ls - 2)))
        then \<lparr>trend = ''BULLISH'', bos_detected = True, choch_detected = False\<rparr>
      else if float_lt (price (hs ! (length hs - 1))) (price (hs ! (length hs - 2)))
            \<and> float_lt (price (ls ! (length ls - 1))) (price (ls ! (length ls - 2)))
        then \<lparr>trend = ''BEARISH'', bos_detected = True, choch_detected = False\<rparr>
      else \<lparr>trend = ''NEUTRAL'', bos_detected = False, choch_detected = False\<rparr>)"
proof (cases "length hs < 2 \<or> length ls < 2")
  case True
  then show ?thesis
    by (auto simp: identify_market_structure_def identify_market_structure_try_def assms)
next
  case False
  then have h: "2 \<le> length hs" and l: "2 \<le> length ls" by simp_all
  have try_eq: "identify_market_structure_try a df =
     (if float_gt (price (drop (length hs - 2) hs ! 1)) (price (drop (length hs - 2) hs ! 0))
          \<and> float_gt (price (drop (length ls - 2) ls ! 1)) (price (drop (length ls - 2) ls ! 0))
        then Inr \<lparr>trend = ''BULLISH'', bos_detected = True, choch_detected = False\<rparr>
      else if float_lt (price (drop (length hs - 2) hs ! 1)) (price (drop (length hs - 2) hs ! 0))
          \<and> float_lt (price (drop (length ls - 2) ls ! 1)) (price (drop (length ls - 2) ls ! 0))
        then Inr \<lparr>trend = ''BEARISH'', bos_detected = True, choch_detected = False\<rparr>
      else Inr \<lparr>trend = ''NEUTRAL'', bos_detected = False, choch_detected = False\<rparr>)"
    using h l by (simp add: identify_market_structure_try_def assms Let_def)
  show ?thesis
    unfolding identify_market_structure_def try_eq
    using last_two_of_slice[OF h] last_two_of_slice[OF l] False by (simp split: if_splits)
qed

section \<open>The sample frames, evaluated\<close>

lemma sample_highs_rising:
  "find_swing_highs SMCAnalyzer_init rising_frame =
     Inr [\<lparr>index = 12, price = Num 17, time = 12\<rparr>, \<lparr>index = 24, price = Num 23, time = 24\<rparr>]"
  by code_simp

lemma sample_lows_rising:
  "find_swing_lows SMCAnalyzer_init rising_frame =
     Inr [\<lparr>index = 6, price = Num 3, time = 6\<rparr>, \<lparr>index = 18, price = Num 9, time = 18\<rparr>]"
  by code_simp

lemma sample_highs_falling:
  "find_swing_highs SMCAnalyzer_init falling_frame =
     Inr [\<lparr>index = 6, price = Num 27, time = 6\<rparr>, \<lparr>index = 18, price = Num 21, time = 18\<rparr>]"
  by code_simp

lemma sample_lows_falling:
  "find_swing_lows SMCAnalyzer_init falling_frame =
     Inr [\<lparr>index = 12, price = Num 13, time = 12\<rparr>, \<lparr>index = 24, price = Num 7, time = 24\<rparr>]"
  by code_simp

lemma sample_structure_rising:
  "identify_market_structure SMCAnalyzer_init rising_frame =
     \<lparr>trend = ''BULLISH'', bos_detected = True, choch_detected = False\<rparr>"
  by (simp add: identify_market_structure_def identify_market_structure_try_def
      sample_highs_rising sample_lows_rising)

lemma sample_structure_falling:
  "identify_market_structure SMCAnalyzer_init falling_frame =
     \<lparr>trend = ''BEARISH'', bos_detected = True, choch_detected = False\<rparr>"
  by (simp add: identify_market_structure_def identify_market_structure_try_def
      sample_highs_falling sample_lows_falling)

lemma sample_structure_short:
  "identify_market_structure SMCAnalyzer_init short_frame =
     \<lparr>trend = ''NEUTRAL'', bos_detected = False, choch_detected = False\<rparr>"
  by code_simp

lemma sample_swings_no_high:
  "find_swing_highs SMCAnalyzer_init no_high_frame = Inl KeyError"
  by code_simp

lemma sample_swings_ragged:
  "find_swing_highs SMCAnalyzer_init ragged_frame = Inl IndexError"
  by code_simp

lemma sample_wf_rising:
  "df_columns rising_frame ''High'' = Some rising_high"
  "length rising_high = len_df rising_frame"
  "df_columns rising_frame ''Low'' = Some rising_low"
  "length rising_low = len_df rising_frame"
  by (simp_all add: rising_frame_def len_df_def rising_high_def rising_low_def sample_index_def)

lemma sample_wf_falling:
  "df_columns falling_frame ''High'' = Some falling_high"
  "length falling_high = len_df falling_frame"
  "df_columns falling_frame ''Low'' = Some falling_low"
  "length falling_low = len_df falling_frame"
  by (simp_all add: falling_frame_def len_df_def falling_high_def falling_low_def sample_index_def)

lemma sample_no_nan_rising: "NaN \<notin> set rising_high" "NaN \<notin> set rising_low"
  by (auto simp: rising_high_def rising_low_def)

lemma sample_no_nan_falling: "NaN \<notin> set falling_high" "NaN \<notin> set falling_low"
  by (auto simp: falling_high_def falling_low_def)

lemma sample_wf_nan:
  "df_columns nan_frame ''High'' = Some nan_high"
  "length nan_high = len_df nan_frame"
  "df_columns nan_frame ''Low'' = Some nan_low"
  "length nan_low = len_df nan_frame"
  by (simp_all add: nan_frame_def len_df_def nan_high_def nan_low_def)

lemma sample_highs_nan:
  "find_swing_highs SMCAnalyzer_init nan_frame =
     Inr [\<lparr>index = 5, price = NaN, time = 5\<rparr>, \<lparr>index = 6, price = NaN, time = 6\<rparr>]"
  by code_simp

lemma sample_lows_nan:
  "find_swing_lows SMCAnalyzer_init nan_frame =
     Inr [\<lparr>index = 5, price = NaN, time = 5\<rparr>, \<lparr>index = 6, price = NaN, time = 6\<rparr>]"
  by code_simp

section \<open>Properties of the swing scans\<close>

text \<open>
  Claim C2, as the code has it. On a frame of \<open>n\<close> rows with columns \<open>'High'\<close> and
  \<open>'Low'\<close>, both scans return, and \<open>find_swing_highs\<close> has a swing point at \<open>i\<close> if
  and only if \<open>swing_length \<le> i \<le> n - swing_length - 1\<close> and no other \<open>j\<close> of
  \<open>[i - swing_length, i + swing_length]\<close> has \<open>high[j] >= high[i]\<close>, the comparison
  being Python's, false whenever one side is NaN; \<open>find_swing_lows\<close> likewise with
  \<open>low[j] <= low[i]\<close>. When the column holds no NaN, that is: \<open>high[i]\<close> is strictly
  greater than \<open>high[j]\<close> for every other \<open>j\<close> of the window (strictly less, for the
  lows). Each swing point carries the price and the time of its position, and each list
  is in ascending position order.
\<close>

theorem swing_points_characterised:
  assumes "df_columns df ''High'' = Some high" and "length high = len_df df"
    and "df_columns df ''Low'' = Some low" and "length low = len_df df"
  shows "\<exists>hs ls. find_swing_highs a df = Inr hs \<and> find_swing_lows a df = Inr ls
    \<and> (\<forall>i. (\<exists>s \<in> set hs. index s = i) \<longleftrightarrow>
          (swing_length a \<le> i \<and> int i \<le> int (len_df df) - int (swing_length a) - 1
           \<and> (\<forall>j. i - swing_length a \<le> j \<and> j \<le> i + swing_length a \<and> j \<noteq> i
                 \<longrightarrow> \<not> float_ge (high ! j) (high ! i))))
    \<and> (\<forall>i. (\<exists>s \<in> set ls. index s = i) \<longleftrightarrow>
          (swing_length a \<le> i \<and> int i \<le> int (len_df df) - int (swing_length a) - 1
           \<and> (\<forall>j. i - swing_length a \<le> j \<and> j \<le> i + swing_length a \<and> j \<noteq> i
                 \<longrightarrow> \<not> float_le (low ! j) (low ! i))))
    \<and> (NaN \<notin> set high \<longrightarrow>
         (\<forall>i. (\<exists>s \<in> set hs. index s = i) \<longleftrightarrow>
          (swing_length a \<le> i \<and> int i \<le> int (len_df df) - int (swing_length a) - 1
           \<and> (\<forall>j. i - swing_length a \<le> j \<and> j \<le> i + swing_length a \<and> j \<noteq> i
                 \<longrightarrow> float_gt (high ! i) (high ! j)))))
    \<and> (NaN \<notin> set low \<longrightarrow>
         (\<forall>i. (\<exists>s \<in> set ls. index s = i) \<longleftrightarrow>
          (swing_length a \<le> i \<and> int i \<le> int (len_df df) - int (swing_length a) - 1
           \<and> (\<forall>j. i - swing_length a \<le> j \<and> j \<le> i + swing_length a \<and> j \<noteq> i
                 \<longrightarrow> float_lt (low ! i) (low ! j)))))
    \<and> (\<forall>s \<in> set hs. price s = high ! index s \<and> time s = df_index df ! index s)
    \<and> (\<forall>s \<in> set ls. price s = low ! index s \<and> time s = df_index df ! index s)
    \<and> sorted_wrt (<) (map index hs) \<and> sorted_wrt (<) (map index ls)"
proof -
  let ?w = "swing_length a" and ?n = "len_df df"
  let ?hs = "map (swing_at df high) (filter (window_clear float_ge ?w high) [?w ..< ?n - ?w])"
  let ?ls = "map (swing_at df low) (filter (window_clear float_le ?w low) [?w ..< ?n - ?w])"
  have range: "(int i \<le> int ?n - int ?w - 1) = (i + ?w + 1 \<le> ?n)" for i
    by linarith
  have "find_swing_highs a df = Inr ?hs"
    by (rule find_swing_highs_filter[OF assms(1,2)])
  moreover have "find_swing_lows a df = Inr ?ls"
    by (rule find_swing_lows_filter[OF assms(3,4)])
  moreover have "\<forall>i. (\<exists>s \<in> set ?hs. index s = i) \<longleftrightarrow>
          (?w \<le> i \<and> int i \<le> int ?n - int ?w - 1
           \<and> (\<forall>j. i - ?w \<le> j \<and> j \<le> i + ?w \<and> j \<noteq> i \<longrightarrow> \<not> float_ge (high ! j) (high ! i)))"
    unfolding swing_positions_iff range by simp
  moreover have "\<forall>i. (\<exists>s \<in> set ?ls. index s = i) \<longleftrightarrow>
          (?w \<le> i \<and> int i \<le> int ?n - int ?w - 1
           \<and> (\<forall>j. i - ?w \<le> j \<and> j \<le> i + ?w \<and> j \<noteq> i \<longrightarrow> \<not> float_le (low ! j) (low ! i)))"
    unfolding swing_positions_iff range by simp
  moreover have "\<forall>i. (\<exists>s \<in> set ?hs. index s = i) \<longleftrightarrow>
          (?w \<le> i \<and> int i \<le> int ?n - int ?w - 1
           \<and> (\<forall>j. i - ?w \<le> j \<and> j \<le> i + ?w \<and> j \<noteq> i \<longrightarrow> float_gt (high ! i) (high ! j)))"
    if "NaN \<notin> set high"
    unfolding swing_positions_iff range strict_maximum_form[OF that assms(2)] by simp
  moreover have "\<forall>i. (\<exists>s \<in> set ?ls. index s = i) \<longleftrightarrow>
          (?w \<le> i \<and> int i \<le> int ?n - int ?w - 1
           \<and> (\<forall>j. i - ?w \<le> j \<and> j \<le> i + ?w \<and> j \<noteq> i \<longrightarrow> float_lt (low ! i) (low ! j)))"
    if "NaN \<notin> set low"
    unfolding swing_positions_iff range strict_minimum_form[OF that assms(4)] by simp
  moreover have "\<forall>s \<in> set ?hs. price s = high ! index s \<and> time s = df_index df ! index s"
    using swing_fields by blast
  moreover have "\<forall>s \<in> set ?ls. price s = low ! index s \<and> time s = df_index df ! index s"
    using swing_fields by blast
  moreover have "sorted_wrt (<) (map index ?hs)" "sorted_wrt (<) (map index ?ls)"
    by (rule sorted_swing_positions)+
  ultimately show ?thesis by blast
qed

theorem swing_points_characterised_witness:
  "df_columns rising_frame ''High'' = Some rising_high
   \<and> length rising_high = len_df rising_frame
   \<and> df_columns rising_frame ''Low'' = Some rising_low
   \<and> length rising_low = len_df rising_frame
   \<and> NaN \<notin> set rising_high \<and> NaN \<notin> set rising_low
   \<and> find_swing_highs SMCAnalyzer_init rising_frame =
       Inr [\<lparr>index = 12, price = Num 17, time = 12\<rparr>, \<lparr>index = 24, price = Num 23, time = 24\<rparr>]
   \<and> find_swing_lows SMCAnalyzer_init rising_frame =
       Inr [\<lparr>index = 6, price = Num 3, time = 6\<rparr>, \<lparr>index = 18, price = Num 9, time = 18\<rparr>]
   \<and> (\<exists>hs ls. find_swing_highs SMCAnalyzer_init rising_frame = Inr hs
        \<and> find_swing_lows SMCAnalyzer_init rising_frame = Inr ls
        \<and> (\<forall>i. (\<exists>s \<in> set hs. index s = i) \<longleftrightarrow>
              (swing_length SMCAnalyzer_init \<le> i
               \<and> int i \<le> int (len_df rising_frame) - int (swing_length SMCAnalyzer_init) - 1
               \<and> (\<forall>j. i - swing_length SMCAnalyzer_init \<le> j
                       \<and> j \<le> i + swing_length SMCAnalyzer_init \<and> j \<noteq> i
                     \<longrightarrow> \<not> float_ge (rising_high ! j) (rising_high ! i))))
        \<and> (\<forall>i. (\<exists>s \<in> set hs. index s = i) \<longleftrightarrow>
              (swing_length SMCAnalyzer_init \<le> i
               \<and> int i \<le> int (len_df rising_frame) - int (swing_length SMCAnalyzer_init) - 1
               \<and> (\<forall>j. i - swing_length SMCAnalyzer_init \<le> j
                       \<and> j \<le> i + swing_length SMCAnalyzer_init \<and> j \<noteq> i
                     \<longrightarrow> float_gt (rising_high ! i) (rising_high ! j))))
        \<and> (\<forall>i. (\<exists>s \<in> set ls. index s = i) \<longleftrightarrow>
              (swing_length SMCAnalyzer_init \<le> i
               \<and> int i \<le> int (len_df rising_frame) - int (swing_length SMCAnalyzer_init) - 1
               \<and> (\<forall>j. i - swing_length SMCAnalyzer_init \<le> j
                       \<and> j \<le> i + swing_length SMCAnalyzer_init \<and> j \<noteq> i
                     \<longrightarrow> float_lt (rising_low ! i) (rising_low ! j))))
        \<and> sorted_wrt (<) (map index hs) \<and> sorted_wrt (<) (map index ls))"
proof -
  from swing_points_characterised[OF sample_wf_rising, of SMCAnalyzer_init]
    sample_no_nan_rising
  have "\<exists>hs ls. find_swing_highs SMCAnalyzer_init rising_frame = Inr hs
        \<and> find_swing_lows SMCAnalyzer_init rising_frame = Inr ls
        \<and> (\<forall>i. (\<exists>s \<in> set hs. index s = i) \<longleftrightarrow>
              (swing_length SMCAnalyzer_init \<le> i
               \<and> int i \<le> int (len_df rising_frame) - int (swing_length SMCAnalyzer_init) - 1
               \<and> (\<forall>j. i - swing_length SMCAnalyzer_init \<le> j
                       \<and> j \<le> i + swing_length SMCAnalyzer_init \<and> j \<noteq> i
                     \<longrightarrow> \<not> float_ge (rising_high ! j) (rising_high ! i))))
        \<and> (\<forall>i. (\<exists>s \<in> set hs. index s = i) \<longleftrightarrow>
              (swing_length SMCAnalyzer_init \<le> i
               \<and> int i \<le> int (len_df rising_frame) - int (swing_length SMCAnalyzer_init) - 1
               \<and> (\<forall>j. i - swing_length SMCAnalyzer_init \<le> j
                       \<and> j \<le> i + swing_length SMCAnalyzer_init \<and> j \<noteq> i
                     \<longrightarrow> float_gt (rising_high ! i) (rising_high ! j))))
        \<and> (\<forall>i. (\<exists>s \<in> set ls. index s = i) \<longleftrightarrow>
              (swing_length SMCAnalyzer_init \<le> i
               \<and> int i \<le> int (len_df rising_frame) - int (swing_length SMCAnalyzer_init) - 1
               \<and> (\<forall>j. i - swing_length SMCAnalyzer_init \<le> j
                       \<and> j \<le> i + swing_length SMCAnalyzer_init \<and> j \<noteq> i
                     \<longrightarrow> float_lt (rising_low ! i) (rising_low ! j))))
        \<and> sorted_wrt (<) (map index hs) \<and> sorted_wrt (<) (map index ls)"
    by blast
  with sample_wf_rising sample_no_nan_rising sample_highs_rising sample_lows_rising
  show ?thesis by blast
qed

text \<open>
  On the frame whose high is NaN at positions 5 and 6, \<open>find_swing_highs\<close> returns a
  swing point at position 5, where no neighbour compares \<open>>=\<close> to NaN; yet
  \<open>high[5] > high[4]\<close> is false, so position 5 is not strictly greater than every
  other high of its window.
\<close>

theorem nan_swing_high_counterexample:
  "df_columns nan_frame ''High'' = Some nan_high
   \<and> length nan_high = len_df nan_frame
   \<and> find_swing_highs SMCAnalyzer_init nan_frame =
       Inr [\<lparr>index = 5, price = NaN, time = 5\<rparr>, \<lparr>index = 6, price = NaN, time = 6\<rparr>]
   \<and> \<not> float_gt (nan_high ! 5) (nan_high ! 4)
   \<and> \<not> ((\<exists>s \<in> set [\<lparr>index = 5, price = NaN, time = 5::nat\<rparr>,
                       \<lparr>index = 6, price = NaN :: int pyfloat, time = 6\<rparr>]. index s = 5) \<longleftrightarrow>
          (swing_length SMCAnalyzer_init \<le> 5
           \<and> int 5 \<le> int (len_df nan_frame) - int (swing_length SMCAnalyzer_init) - 1
           \<and> (\<forall>j. 5 - swing_length SMCAnalyzer_init \<le> j
                   \<and> j \<le> 5 + swing_length SMCAnalyzer_init \<and> j \<noteq> 5
                 \<longrightarrow> float_gt (nan_high ! 5) (nan_high ! j))))"
proof -
  have ngt: "\<not> float_gt (nan_high ! 5) (nan_high ! 4)"
    by (simp add: nan_high_def)
  have "\<not> (\<forall>j. 5 - swing_length SMCAnalyzer_init \<le> j
              \<and> j \<le> 5 + swing_length SMCAnalyzer_init \<and> j \<noteq> 5
            \<longrightarrow> float_gt (nan_high ! 5) (nan_high ! j))"
  proof
    assume "\<forall>j. 5 - swing_length SMCAnalyzer_init \<le> j
              \<and> j \<le> 5 + swing_length SMCAnalyzer_init \<and> j \<noteq> 5
            \<longrightarrow> float_gt (nan_high ! 5) (nan_high ! j)"
    then have "5 - swing_length SMCAnalyzer_init \<le> 4
              \<and> (4::nat) \<le> 5 + swing_length SMCAnalyzer_init \<and> (4::nat) \<noteq> 5
            \<longrightarrow> float_gt (nan_high ! 5) (nan_high ! 4)"
      by blast
    with ngt show False by (simp add: SMCAnalyzer_init_def)
  qed
  with ngt sample_wf_nan(1,2) sample_highs_nan show ?thesis by simp
qed

text \<open>
  Claim C8. For every frame of length less than \<open>2 * swing_length + 1\<close>, both
  \<open>find_swing_highs\<close> and \<open>find_swing_lows\<close> return the empty list (whatever its
  columns are: the loops do not run).
\<close>

theorem short_series_no_swings:
  assumes "len_df df < 2 * swing_length a + 1"
  shows "find_swing_highs a df = Inr [] \<and> find_swing_lows a df = Inr []"
  using assms by (simp add: find_swing_highs_def find_swing_lows_def)

theorem short_series_no_swings_witness:
  "len_df short_frame < 2 * swing_length SMCAnalyzer_init + 1
   \<and> find_swing_highs SMCAnalyzer_init short_frame = Inr []
   \<and> find_swing_lows SMCAnalyzer_init short_frame = Inr []"
proof -
  have l: "len_df short_frame < 2 * swing_length SMCAnalyzer_init + 1"
    by (simp add: len_df_def short_frame_def SMCAnalyzer_init_def)
  from short_series_no_swings[OF l] l show ?thesis by blast
qed

text \<open>
  Claim C10, as the code has it. On a frame with columns \<open>'High'\<close> and \<open>'Low'\<close>, when
  the column \<open>'High'\<close> holds no NaN, any two swing points at different places of the
  list returned by \<open>find_swing_highs\<close> have positions at least \<open>swing_length + 1\<close>
  apart; the same holds for \<open>find_swing_lows\<close> when the column \<open>'Low'\<close> holds no NaN.
\<close>

theorem swing_points_separated:
  assumes "df_columns df ''High'' = Some high" and "length high = len_df df"
    and "df_columns df ''Low'' = Some low" and "length low = len_df df"
  shows "\<exists>hs ls. find_swing_highs a df = Inr hs \<and> find_swing_lows a df = Inr ls
    \<and> (NaN \<notin> set high \<longrightarrow>
         (\<forall>p q. p < length hs \<and> q < length hs \<and> p \<noteq> q \<longrightarrow>
            \<bar>int (index (hs ! p)) - int (index (hs ! q))\<bar> \<ge> int (swing_length a) + 1))
    \<and> (NaN \<notin> set low \<longrightarrow>
         (\<forall>p q. p < length ls \<and> q < length ls \<and> p \<noteq> q \<longrightarrow>
            \<bar>int (index (ls ! p)) - int (index (ls ! q))\<bar> \<ge> int (swing_length a) + 1))"
proof -
  let ?w = "swing_length a" and ?n = "len_df df"
  let ?hs = "map (swing_at df high) (filter (window_clear float_ge ?w high) [?w ..< ?n - ?w])"
  let ?ls = "map (swing_at df low) (filter (window_clear float_le ?w low) [?w ..< ?n - ?w])"
  have apart: "\<bar>int (index (sw ! p)) - int (index (sw ! q))\<bar> \<ge> int ?w + 1"
    if tot: "\<And>x y. x \<in> set col \<Longrightarrow> y \<in> set col \<Longrightarrow> disq x y \<or> disq y x"
      and len: "length col = ?n"
      and sw: "sw = map (swing_at df col) (filter (window_clear disq ?w col) [?w ..< ?n - ?w])"
      and pq: "p < length sw" "q < length sw" "p \<noteq> q"
    for disq sw col p q
  proof -
    have m: "?n - ?w \<le> length col" using len by simp
    show ?thesis
    proof (cases "p < q")
      case True
      from swings_apart[OF tot m sw True pq(2)] show ?thesis by linarith
    next
      case False
      then have "q < p" using pq(3) by simp
      from swings_apart[OF tot m sw this pq(1)] show ?thesis by linarith
    qed
  qed
  have "find_swing_highs a df = Inr ?hs"
    by (rule find_swing_highs_filter[OF assms(1,2)])
  moreover have "find_swing_lows a df = Inr ?ls"
    by (rule find_swing_lows_filter[OF assms(3,4)])
  moreover have "\<forall>p q. p < length ?hs \<and> q < length ?hs \<and> p \<noteq> q \<longrightarrow>
          \<bar>int (index (?hs ! p)) - int (index (?hs ! q))\<bar> \<ge> int ?w + 1"
    if nan: "NaN \<notin> set high"
  proof -
    have "float_ge x y \<or> float_ge y x" if "x \<in> set high" "y \<in> set high" for x y
      using that nan by (intro float_ge_total) metis+
    from apart[of high float_ge ?hs, OF this assms(2)] show ?thesis by blast
  qed
  moreover have "\<forall>p q. p < length ?ls \<and> q < length ?ls \<and> p \<noteq> q \<longrightarrow>
          \<bar>int (index (?ls ! p)) - int (index (?ls ! q))\<bar> \<ge> int ?w + 1"
    if nan: "NaN \<notin> set low"
  proof -
    have "float_le x y \<or> float_le y x" if "x \<in> set low" "y \<in> set low" for x y
      using that nan by (intro float_le_total) metis+
    from apart[of low float_le ?ls, OF this assms(4)] show ?thesis by blast
  qed
  ultimately show ?thesis by blast
qed

theorem swing_points_separated_witness:
  "df_columns falling_frame ''High'' = Some falling_high
   \<and> length falling_high = len_df falling_frame
   \<and> df_columns falling_frame ''Low'' = Some falling_low
   \<and> length falling_low = len_df falling_frame
   \<and> NaN \<notin> set falling_high \<and> NaN \<notin> set falling_low
   \<and> find_swing_highs SMCAnalyzer_init falling_frame =
       Inr [\<lparr>index = 6, price = Num 27, time = 6\<rparr>, \<lparr>index = 18, price = Num 21, time = 18\<rparr>]
   \<and> find_swing_lows SMCAnalyzer_init falling_frame =
       Inr [\<lparr>index = 12, price = Num 13, time = 12\<rparr>, \<lparr>index = 24, price = Num 7, time = 24\<rparr>]
   \<and> (\<exists>hs ls. find_swing_highs SMCAnalyzer_init falling_frame = Inr hs
        \<and> find_swing_lows SMCAnalyzer_init falling_frame = Inr ls
        \<and> (\<forall>p q. p < length hs \<and> q < length hs \<and> p \<noteq> q \<longrightarrow>
              \<bar>int (index (hs ! p)) - int (index (hs ! q))\<bar>
                \<ge> int (swing_length SMCAnalyzer_init) + 1)
        \<and> (\<forall>p q. p < length ls \<and> q < length ls \<and> p \<noteq> q \<longrightarrow>
              \<bar>int (index (ls ! p)) - int (index (ls ! q))\<bar>
                \<ge> int (swing_length SMCAnalyzer_init) + 1))"
proof -
  from swing_points_separated[OF sample_wf_falling, of SMCAnalyzer_init]
    sample_no_nan_falling
  have "\<exists>hs ls. find_swing_highs SMCAnalyzer_init falling_frame = Inr hs
        \<and> find_swing_lows SMCAnalyzer_init falling_frame = Inr ls
        \<and> (\<forall>p q. p < length hs \<and> q < length hs \<and> p \<noteq> q \<longrightarrow>
              \<bar>int (index (hs ! p)) - int (index (hs ! q))\<bar>
                \<ge> int (swing_length SMCAnalyzer_init) + 1)
        \<and> (\<forall>p q. p < length ls \<and> q < length ls \<and> p \<noteq> q \<longrightarrow>
              \<bar>int (index (ls ! p)) - int (index (ls ! q))\<bar>
                \<ge> int (swing_length SMCAnalyzer_init) + 1)"
    by blast
  with sample_wf_falling sample_no_nan_falling sample_highs_falling sample_lows_falling
  show ?thesis by blast
qed

text \<open>
  On the frame whose high is NaN at positions 5 and 6, with the window length 5,
  \<open>find_swing_highs\<close> returns swing points at positions 5 and 6: two different swing
  points one position apart, less than \<open>swing_length + 1 = 6\<close>.
\<close>

theorem nan_adjacent_swings_counterexample:
  "df_columns nan_frame ''High'' = Some nan_high
   \<and> length nan_high = len_df nan_frame
   \<and> find_swing_highs SMCAnalyzer_init nan_frame =
       Inr [\<lparr>index = 5, price = NaN, time = 5\<rparr>, \<lparr>index = 6, price = NaN, time = 6\<rparr>]
   \<and> \<not> (\<bar>int (index ([\<lparr>index = 5, price = NaN :: int pyfloat, time = 5::nat\<rparr>,
                          \<lparr>index = 6, price = NaN, time = 6\<rparr>] ! 0))
            - int (index ([\<lparr>index = 5, price = NaN :: int pyfloat, time = 5::nat\<rparr>,
                            \<lparr>index = 6, price = NaN, time = 6\<rparr>] ! 1))\<bar>
          \<ge> int (swing_length SMCAnalyzer_init) + 1)"
  using sample_wf_nan(1,2) sample_highs_nan by (simp add: SMCAnalyzer_init_def)

section \<open>Properties of the classifier\<close>

text \<open>
  Claim C3. On a frame with columns \<open>'High'\<close> and \<open>'Low'\<close>, with \<open>hs\<close> and \<open>ls\<close>
  the swing highs and lows found (in ascending position order, so that the last two are
  the two most recent): \<open>identify_market_structure\<close> returns the neutral default when
  either list has fewer than two elements; otherwise BULLISH with \<open>bos_detected\<close> when
  the last high and the last low are both above the ones before them, else BEARISH with
  \<open>bos_detected\<close> when both are below, else the neutral default. The comparisons of
  prices are Python's \<open>>\<close> and \<open><\<close>.
\<close>

theorem structure_from_last_two_swings:
  assumes "df_columns df ''High'' = Some high" and "length high = len_df df"
    and "df_columns df ''Low'' = Some low" and "length low = len_df df"
  shows "\<exists>hs ls. find_swing_highs a df = Inr hs \<and> find_swing_lows a df = Inr ls
    \<and> sorted_wrt (<) (map index hs) \<and> sorted_wrt (<) (map index ls)
    \<and> identify_market_structure a df =
       (if length hs < 2 \<or> length ls < 2
          then \<lparr>trend = ''NEUTRAL'', bos_detected = False, choch_detected = False\<rparr>
        else if float_gt (price (hs ! (length hs - 1))) (price (hs ! (length hs - 2)))
              \<and> float_gt (price (ls ! (length ls - 1))) (price (ls ! (length ls - 2)))
          then \<lparr>trend = ''BULLISH'', bos_detected = True, choch_detected = False\<rparr>
        else if float_lt (price (hs ! (length hs - 1))) (price (hs ! (length hs - 2)))
              \<and> float_lt (price (ls ! (length ls - 1))) (price (ls ! (length ls - 2)))
          then \<lparr>trend = ''BEARISH'', bos_detected = True, choch_detected = False\<rparr>
        else \<lparr>trend = ''NEUTRAL'', bos_detected = False, choch_detected = False\<rparr>)"
proof -
  let ?w = "swing_length a" and ?n = "len_df df"
  let ?hs = "map (swing_at df high) (filter (window_clear float_ge ?w high) [?w ..< ?n - ?w])"
  let ?ls = "map (swing_at df low) (filter (window_clear float_le ?w low) [?w ..< ?n - ?w])"
  have h: "find_swing_highs a df = Inr ?hs"
    by (rule find_swing_highs_filter[OF assms(1,2)])
  have l: "find_swing_lows a df = Inr ?ls"
    by (rule find_swing_lows_filter[OF assms(3,4)])
  have "sorted_wrt (<) (map index ?hs)" "sorted_wrt (<) (map index ?ls)"
    by (rule sorted_swing_positions)+
  with h l structure_of_swings[OF h l] show ?thesis by blast
qed

theorem structure_from_last_two_swings_witness:
  "df_columns falling_frame ''High'' = Some falling_high
   \<and> length falling_high = len_df falling_frame
   \<and> df_columns falling_frame ''Low'' = Some falling_low
   \<and> length falling_low = len_df falling_frame
   \<and> identify_market_structure SMCAnalyzer_init falling_frame =
       \<lparr>trend = ''BEARISH'', bos_detected = True, choch_detected = False\<rparr>
   \<and> (\<exists>hs ls. find_swing_highs SMCAnalyzer_init falling_frame = Inr hs
        \<and> find_swing_lows SMCAnalyzer_init falling_frame = Inr ls
        \<and> sorted_wrt (<) (map index hs) \<and> sorted_wrt (<) (map index ls)
        \<and> identify_market_structure SMCAnalyzer_init falling_frame =
           (if length hs < 2 \<or> length ls < 2
              then \<lparr>trend = ''NEUTRAL'', bos_detected = False, choch_detected = False\<rparr>
            else if float_gt (price (hs ! (length hs - 1))) (price (hs ! (length hs - 2)))
                  \<and> float_gt (price (ls ! (length ls - 1))) (price (ls ! (length ls - 2)))
              then \<lparr>trend = ''BULLISH'', bos_detected = True, choch_detected = False\<rparr>
            else if float_lt (price (hs ! (length hs - 1))) (price (hs ! (length hs - 2)))
                  \<and> float_lt (price (ls ! (length ls - 1))) (price (ls ! (length ls - 2)))
              then \<lparr>trend = ''BEARISH'', bos_detected = True, choch_detected = False\<rparr>
            else \<lparr>trend = ''NEUTRAL'', bos_detected = False, choch_detected = False\<rparr>))"
  using structure_from_last_two_swings[OF sample_wf_falling, of SMCAnalyzer_init]
    sample_wf_falling sample_structure_falling
  by blast

text \<open>
  Claim C5. For every frame, in the structure returned by \<open>identify_market_structure\<close>,
  \<open>bos_detected\<close> is true if and only if the trend is BULLISH or BEARISH, and false
  exactly when the trend is NEUTRAL.
\<close>

theorem bos_iff_trending:
  "(bos_detected (identify_market_structure a df) \<longleftrightarrow>
      trend (identify_market_structure a df) = ''BULLISH''
      \<or> trend (identify_market_structure a df) = ''BEARISH'')
   \<and> (\<not> bos_detected (identify_market_structure a df) \<longleftrightarrow>
      trend (identify_market_structure a df) = ''NEUTRAL'')"
  using identify_market_structure_cases[of a df] by auto

theorem bos_iff_trending_witness:
  "bos_detected (identify_market_structure SMCAnalyzer_init rising_frame)
   \<and> trend (identify_market_structure SMCAnalyzer_init rising_frame) = ''BULLISH''
   \<and> \<not> bos_detected (identify_market_structure SMCAnalyzer_init short_frame)
   \<and> trend (identify_market_structure SMCAnalyzer_init short_frame) = ''NEUTRAL''"
  using bos_iff_trending[of SMCAnalyzer_init rising_frame]
    bos_iff_trending[of SMCAnalyzer_init short_frame]
  by (simp add: sample_structure_rising sample_structure_short)

text \<open>
  Claim C9. For every frame, \<open>choch_detected\<close> is false in the structure returned by
  \<open>identify_market_structure\<close>: in the one the \<open>try\<close> block returns, and in the one
  of the error branch.
\<close>

theorem choch_never_detected:
  "\<not> choch_detected (identify_market_structure a df)
   \<and> (case identify_market_structure_try a df of
         Inl e \<Rightarrow> True | Inr structure \<Rightarrow> \<not> choch_detected structure)"
proof -
  have "\<not> choch_detected (identify_market_structure a df)"
    using identify_market_structure_cases[of a df] by auto
  then show ?thesis
    by (auto simp: identify_market_structure_def split: sum.splits)
qed

theorem choch_never_detected_witness:
  "\<not> choch_detected (identify_market_structure SMCAnalyzer_init rising_frame)
   \<and> \<not> choch_detected (identify_market_structure SMCAnalyzer_init no_high_frame)"
  using choch_never_detected[of SMCAnalyzer_init rising_frame]
    choch_never_detected[of SMCAnalyzer_init no_high_frame]
  by blast

section \<open>Errors and safe defaults\<close>

text \<open>
  Claim C4. Neither function raises: \<open>identify_market_structure\<close> returns a structure
  and \<open>get_smc_signal\<close> a signal or None on every frame, and the scorer's own
  \<open>try\<close> block raises on none. Whenever a swing scan raises (a column is missing, a
  column is shorter than the index), or the column \<open>'High'\<close> or \<open>'Low'\<close> is missing,
  the structure is the neutral default and the signal is None.
\<close>

theorem errors_mapped_to_defaults:
  assumes "(\<exists>e. find_swing_highs a df = Inl e) \<or> (\<exists>e. find_swing_lows a df = Inl e)
      \<or> df_columns df ''High'' = None \<or> df_columns df ''Low'' = None"
  shows "identify_market_structure a df =
       \<lparr>trend = ''NEUTRAL'', bos_detected = False, choch_detected = False\<rparr>
     \<and> get_smc_signal a df = None
     \<and> (\<exists>r. get_smc_signal_try a df = Inr r)"
proof -
  have short: "identify_market_structure a df =
       \<lparr>trend = ''NEUTRAL'', bos_detected = False, choch_detected = False\<rparr>"
    if "find_swing_highs a df = Inr [] \<or> find_swing_lows a df = Inr []
        \<or> (\<exists>e. find_swing_highs a df = Inl e) \<or> (\<exists>e. find_swing_lows a df = Inl e)"
    using that
    by (auto simp: identify_market_structure_def identify_market_structure_try_def
        split: sum.splits)
  have "identify_market_structure a df =
       \<lparr>trend = ''NEUTRAL'', bos_detected = False, choch_detected = False\<rparr>"
    using assms find_swing_highs_missing[of df a] find_swing_lows_missing[of df a]
    by (intro short) blast
  moreover have "\<exists>r. get_smc_signal_try a df = Inr r"
    by (simp add: get_smc_signal_try_def signal_of_structure_cases Let_def)
  ultimately show ?thesis
    by (simp add: neutral_structure_no_signal)
qed

theorem errors_mapped_to_defaults_witness:
  "find_swing_highs SMCAnalyzer_init no_high_frame = Inl KeyError
   \<and> df_columns no_high_frame ''High'' = None
   \<and> identify_market_structure SMCAnalyzer_init no_high_frame =
       \<lparr>trend = ''NEUTRAL'', bos_detected = False, choch_detected = False\<rparr>
   \<and> get_smc_signal SMCAnalyzer_init no_high_frame = None
   \<and> find_swing_highs SMCAnalyzer_init ragged_frame = Inl IndexError
   \<and> identify_market_structure SMCAnalyzer_init ragged_frame =
       \<lparr>trend = ''NEUTRAL'', bos_detected = False, choch_detected = False\<rparr>
   \<and> get_smc_signal SMCAnalyzer_init ragged_frame = None"
proof -
  have m: "df_columns no_high_frame ''High'' = None"
    by (simp add: no_high_frame_def)
  have h1: "(\<exists>e. find_swing_highs SMCAnalyzer_init no_high_frame = Inl e)
      \<or> (\<exists>e. find_swing_lows SMCAnalyzer_init no_high_frame = Inl e)
      \<or> df_columns no_high_frame ''High'' = None \<or> df_columns no_high_frame ''Low'' = None"
    using sample_swings_no_high by blast
  have h2: "(\<exists>e. find_swing_highs SMCAnalyzer_init ragged_frame = Inl e)
      \<or> (\<exists>e. find_swing_lows SMCAnalyzer_init ragged_frame = Inl e)
      \<or> df_columns ragged_frame ''High'' = None \<or> df_columns ragged_frame ''Low'' = None"
    using sample_swings_ragged by blast
  from errors_mapped_to_defaults[OF h1] errors_mapped_to_defaults[OF h2]
    sample_swings_no_high sample_swings_ragged m
  show ?thesis by blast
qed

section \<open>Properties of the scorer\<close>

text \<open>
  Claim C1, as the code has it. The BOS bonus is an \<open>if\<close>/\<open>else\<close> on the trend being
  BULLISH: for every market structure, the sell tally receives the +4 bonus exactly when
  \<open>bos_detected\<close> is true and the trend is not BULLISH, and the buy tally exactly when
  \<open>bos_detected\<close> is true and the trend is BULLISH. On every structure that
  \<open>identify_market_structure\<close> returns, the sell tally receives the bonus exactly when
  \<open>bos_detected\<close> is true and the trend is BEARISH. A NEUTRAL structure without
  \<open>bos_detected\<close> leaves both scores at 0; a NEUTRAL structure with \<open>bos_detected\<close>
  takes the \<open>else\<close> branch and scores (0, 4).
\<close>

theorem bos_bonus_by_else_branch:
  "snd (bos_signals ms (buy_score, sell_score)) =
      (if bos_detected ms \<and> trend ms \<noteq> ''BULLISH'' then sell_score + 4 else sell_score)
   \<and> fst (bos_signals ms (buy_score, sell_score)) =
      (if bos_detected ms \<and> trend ms = ''BULLISH'' then buy_score + 4 else buy_score)
   \<and> (snd (bos_signals (identify_market_structure a df) (buy_score, sell_score)) = sell_score + 4)
      = (bos_detected (identify_market_structure a df)
          \<and> trend (identify_market_structure a df) = ''BEARISH'')
   \<and> smc_scores \<lparr>trend = ''NEUTRAL'', bos_detected = False, choch_detected = c\<rparr> = (0, 0)
   \<and> smc_scores \<lparr>trend = ''NEUTRAL'', bos_detected = True, choch_detected = c\<rparr> = (0, 4)"
proof -
  have "(snd (bos_signals (identify_market_structure a df) (buy_score, sell_score)) = sell_score + 4)
      = (bos_detected (identify_market_structure a df)
          \<and> trend (identify_market_structure a df) = ''BEARISH'')"
    using identify_market_structure_cases[of a df]
    by (auto simp: bos_signals_def)
  then show ?thesis
    by (simp add: bos_signals_def smc_scores_cases)
qed

theorem bos_bonus_by_else_branch_witness:
  "snd (bos_signals \<lparr>trend = ''BEARISH'', bos_detected = True, choch_detected = False\<rparr> (0, 3)) = 7
   \<and> fst (bos_signals \<lparr>trend = ''BEARISH'', bos_detected = True, choch_detected = False\<rparr> (0, 3)) = 0
   \<and> snd (bos_signals (identify_market_structure SMCAnalyzer_init falling_frame) (0, 3)) = 7
   \<and> smc_scores \<lparr>trend = ''NEUTRAL'', bos_detected = False, choch_detected = False\<rparr> = (0, 0)
   \<and> smc_scores \<lparr>trend = ''NEUTRAL'', bos_detected = True, choch_detected = False\<rparr> = (0, 4)"
  using bos_bonus_by_else_branch[of "\<lparr>trend = ''BEARISH'', bos_detected = True, choch_detected = False\<rparr>"
      0 3 SMCAnalyzer_init falling_frame False]
  by (simp add: sample_structure_falling)

text \<open>
  The structure NEUTRAL with \<open>bos_detected\<close> true does not leave both scores at 0: the
  sell tally receives the +4 bonus though the trend is not BEARISH, and a SELL signal of
  confidence 95 follows.
\<close>

theorem neutral_bos_counterexample:
  "smc_scores \<lparr>trend = ''NEUTRAL'', bos_detected = True, choch_detected = False\<rparr> = (0, 4)
   \<and> smc_scores \<lparr>trend = ''NEUTRAL'', bos_detected = True, choch_detected = False\<rparr> \<noteq> (0, 0)
   \<and> snd (bos_signals \<lparr>trend = ''NEUTRAL'', bos_detected = True, choch_detected = False\<rparr> (0, 0)) = 0 + 4
   \<and> trend \<lparr>trend = ''NEUTRAL'', bos_detected = True, choch_detected = False\<rparr> \<noteq> ''BEARISH''
   \<and> signal_of_structure \<lparr>trend = ''NEUTRAL'', bos_detected = True, choch_detected = False\<rparr>
       = Inr (Some \<lparr>signal_type = ''SELL'', confidence = 95\<rparr>)"
  by (simp add: smc_scores_cases signal_of_structure_cases bos_signals_def)

text \<open>
  Claim C6. For every frame whose market structure is BULLISH with \<open>bos_detected\<close>
  true, the scores are buy 7 and sell 0, the quotient 7 / 7 times 100 is clamped to 95,
  rounding to one decimal leaves 95, and \<open>get_smc_signal\<close> returns BUY with confidence
  95.
\<close>

theorem bullish_bos_signal:
  assumes "trend (identify_market_structure a df) = ''BULLISH''"
    and "bos_detected (identify_market_structure a df)"
  shows "smc_scores (identify_market_structure a df) = (7, 0)
    \<and> py_truediv 7 (7 + 0) = Inr 1
    \<and> min (1 * 100) (95::real) = 95
    \<and> py_round 95 1 = 95
    \<and> get_smc_signal a df = Some \<lparr>signal_type = ''BUY'', confidence = 95\<rparr>"
  using assms
  by (simp add: smc_scores_cases get_smc_signal_cases py_truediv_def py_round_def
      round_half_even_def)

theorem bullish_bos_signal_witness:
  "trend (identify_market_structure SMCAnalyzer_init rising_frame) = ''BULLISH''
   \<and> bos_detected (identify_market_structure SMCAnalyzer_init rising_frame)
   \<and> smc_scores (identify_market_structure SMCAnalyzer_init rising_frame) = (7, 0)
   \<and> get_smc_signal SMCAnalyzer_init rising_frame
        = Some \<lparr>signal_type = ''BUY'', confidence = 95\<rparr>"
proof -
  have t: "trend (identify_market_structure SMCAnalyzer_init rising_frame) = ''BULLISH''"
    and b: "bos_detected (identify_market_structure SMCAnalyzer_init rising_frame)"
    by (simp_all add: sample_structure_rising)
  from bullish_bos_signal[OF t b] t b show ?thesis by simp
qed

text \<open>
  Claim C7. Whenever \<open>get_smc_signal\<close> returns a signal, its confidence lies between 0
  and 95, is a whole number of tenths, and is unchanged by rounding to one decimal.
\<close>

theorem confidence_bounds:
  assumes "get_smc_signal a df = Some s"
  shows "0 \<le> confidence s \<and> confidence s \<le> 95
    \<and> (\<exists>k::int. confidence s = real_of_int k / 10)
    \<and> confidence s = py_round (confidence s) 1"
proof -
  have c: "confidence s = 95"
    using assms by (auto simp: get_smc_signal_cases split: if_splits)
  have "(95::real) = real_of_int 950 / 10" by simp
  then have "\<exists>k::int. (95::real) = real_of_int k / 10" by blast
  then show ?thesis
    using c by (simp add: py_round_def round_half_even_def)
qed

theorem confidence_bounds_witness:
  "get_smc_signal SMCAnalyzer_init falling_frame = Some \<lparr>signal_type = ''SELL'', confidence = 95\<rparr>
   \<and> 0 \<le> confidence \<lparr>signal_type = ''SELL'', confidence = 95\<rparr>
   \<and> confidence \<lparr>signal_type = ''SELL'', confidence = 95\<rparr> \<le> 95
   \<and> confidence \<lparr>signal_type = ''SELL'', confidence = 95\<rparr>
       = py_round (confidence \<lparr>signal_type = ''SELL'', confidence = 95\<rparr>) 1"
proof -
  have g: "get_smc_signal SMCAnalyzer_init falling_frame
      = Some \<lparr>signal_type = ''SELL'', confidence = 95\<rparr>"
    by (simp add: get_smc_signal_cases sample_structure_falling)
  from confidence_bounds[OF g] g show ?thesis by blast
qed

end
